theory Spec2Isabelle
  imports Main "HOL-Library.Word"
begin

section \<open>Common types: bytes, errors, panics\<close>

text \<open>
  Go strings and byte slices are sequences of 8-bit bytes. A Go \<open>error\<close> is modelled by
  its message; \<open>nil\<close> is \<open>None\<close>. A runtime panic is a separate outcome, never an
  error value.
\<close>

type_synonym byte = "8 word"

type_synonym error = string

definition Wrap :: "error \<Rightarrow> string \<Rightarrow> error" where
  \<comment> \<open>\<open>errors.Wrap(err, msg)\<close>: the message becomes \<open>msg: err\<close>.\<close>
  "Wrap err msg = msg @ '': '' @ err"

datatype 'a outcome = Panic string | Returned 'a

section \<open>Package cvmfs: job types\<close>

definition MaxJobDuration :: nat where
  \<comment> \<open>the number of seconds that a job is allowed to take\<close>
  "MaxJobDuration = 2 * 3600"

record JobSpecification =
  Repository :: string
  Payload :: string
  RepositoryPath :: string
  Script :: string
  ScriptArgs :: string
  TransferScript :: bool
  Dependencies :: "string list"

record UnprocessedJob = JobSpecification +
  ID :: string

record ProcessedJob = UnprocessedJob +
  WorkerName :: string
  StartTime :: int
  FinishTime :: int
  Successful :: bool
  ErrorMessage :: string

text \<open>\<open>JobStatus\<close>: a job ID and its completion status.\<close>

type_synonym JobStatus = "string \<times> bool"

record BasicReply =
  Status :: string
  Reason :: string

record GetJobStatusReply = BasicReply +
  IDs :: "JobStatus list"
  Jobs :: "ProcessedJob list"

section \<open>The libraries used by the script packer\<close>

subsection \<open>encoding/base64, StdEncoding\<close>

definition encodeStd :: string where
  "encodeStd = ''ABCDEFGHIJKLMNOPQRSTUVWXYZabcdefghijklmnopqrstuvwxyz0123456789+/''"

definition enc6 :: "nat \<Rightarrow> char" where
  "enc6 n = encodeStd ! n"

fun index_of :: "char \<Rightarrow> string \<Rightarrow> nat option" where
  "index_of c [] = None"
| "index_of c (x # xs) =
     (if c = x then Some 0 else (case index_of c xs of None \<Rightarrow> None | Some i \<Rightarrow> Some (Suc i)))"

definition dec6 :: "char \<Rightarrow> nat option" where
  "dec6 c = index_of c encodeStd"

text \<open>
  \<open>EncodeToString\<close>: three bytes give the 24-bit value \<open>a<<16 | b<<8 | c\<close>, written
  as four 6-bit digits (\<open>val>>18 & 0x3F\<close>, ...); a remainder of one or two bytes is
  padded with \<open>=\<close>.
\<close>

fun EncodeToString :: "byte list \<Rightarrow> string" where
  "EncodeToString (a # b # c # rest) =
     (let val = unat a * 65536 + unat b * 256 + unat c
      in enc6 (val div 262144 mod 64) # enc6 (val div 4096 mod 64) #
         enc6 (val div 64 mod 64) # enc6 (val mod 64) # EncodeToString rest)"
| "EncodeToString [a, b] =
     (let val = unat a * 65536 + unat b * 256
      in [enc6 (val div 262144 mod 64), enc6 (val div 4096 mod 64),
          enc6 (val div 64 mod 64), CHR ''=''])"
| "EncodeToString [a] =
     (let val = unat a * 65536
      in [enc6 (val div 262144 mod 64), enc6 (val div 4096 mod 64), CHR ''='', CHR ''=''])"
| "EncodeToString [] = []"

text \<open>
  \<open>DecodeString\<close> (non-strict padded decoding): carriage returns and line feeds are
  skipped, every other character must be in the alphabet, padding may only close the
  input. The offset carried by \<open>CorruptInputError\<close> is left out of the message.
\<close>

definition CorruptInputError :: error where
  "CorruptInputError = ''illegal base64 data''"

fun decode_quanta :: "string \<Rightarrow> error + byte list" where
  "decode_quanta (c0 # c1 # c2 # c3 # rest) =
     (case (dec6 c0, dec6 c1) of
        (Some s0, Some s1) \<Rightarrow>
          if c2 = CHR ''='' then
            (if c3 = CHR ''='' \<and> rest = []
             then Inr [of_nat ((s0 * 262144 + s1 * 4096) div 65536 mod 256)]
             else Inl CorruptInputError)
          else
            (case dec6 c2 of
               None \<Rightarrow> Inl CorruptInputError
             | Some s2 \<Rightarrow>
                 if c3 = CHR ''='' then
                   (if rest = []
                    then Inr [of_nat ((s0 * 262144 + s1 * 4096 + s2 * 64) div 65536 mod 256),
                              of_nat ((s0 * 262144 + s1 * 4096 + s2 * 64) div 256 mod 256)]
                    else Inl CorruptInputError)
                 else
                   (case dec6 c3 of
                      None \<Rightarrow> Inl CorruptInputError
                    | Some s3 \<Rightarrow>
                        (case decode_quanta rest of
                           Inl e \<Rightarrow> Inl e
                         | Inr bs \<Rightarrow>
                             Inr (of_nat ((s0 * 262144 + s1 * 4096 + s2 * 64 + s3) div 65536 mod 256) #
                                  of_nat ((s0 * 262144 + s1 * 4096 + s2 * 64 + s3) div 256 mod 256) #
                                  of_nat ((s0 * 262144 + s1 * 4096 + s2 * 64 + s3) mod 256) # bs))))
      | _ \<Rightarrow> Inl CorruptInputError)"
| "decode_quanta [] = Inr []"
| "decode_quanta _ = Inl CorruptInputError"

definition DecodeString :: "string \<Rightarrow> error + byte list" where
  "DecodeString s = decode_quanta (filter (\<lambda>c. c \<noteq> CHR 0x0D \<and> c \<noteq> CHR 0x0A) s)"

subsection \<open>compress/gzip\<close>

text \<open>
  The compressor is a library outside the repository and is a parameter of the model.
  \<open>gz_write\<close> stands for \<open>gz.Write(input)\<close> followed by \<open>gz.Close()\<close> on a fresh
  buffer, \<open>gz_read\<close> for \<open>gzip.NewReader\<close> followed by \<open>ioutil.ReadAll\<close>; each
  result says which of the two calls failed.
\<close>

datatype gzw_result = WriteErr error | CloseErr error | Compressed "byte list"

datatype gzr_result = HeaderErr error | DataErr error | Raw "byte list"

record gziplib =
  gz_write :: "byte list \<Rightarrow> gzw_result"
  gz_read :: "byte list \<Rightarrow> gzr_result"

subsection \<open>io.Reader and io.Writer\<close>

text \<open>
  A reader is the sequence of results its successive \<open>Read\<close> calls deliver: the bytes
  read and the error returned with them. Once the sequence is used up, \<open>Read\<close>
  returns \<open>0, io.EOF\<close>.
\<close>

datatype ioerr = EOF | IOFailure error

type_synonym reader = "(byte list \<times> ioerr option) list"

text \<open>
  A regular file of content \<open>bs\<close> read through a buffer of \<open>k\<close> bytes: full chunks,
  then the rest, then end of file.
\<close>

fun file_reader :: "nat \<Rightarrow> byte list \<Rightarrow> reader" where
  "file_reader 0 bs = []"
| "file_reader (Suc k) [] = []"
| "file_reader (Suc k) (b # bs) =
     (take (Suc k) (b # bs), None) # file_reader (Suc k) (drop k bs)"

text \<open>A writer is a state and the function that \<open>Write\<close> applies to it.\<close>

type_synonym 'w writer = "byte list \<Rightarrow> 'w \<Rightarrow> error option \<times> 'w"

definition buffer_Write :: "(byte list) writer" where
  \<comment> \<open>\<open>bytes.Buffer\<close>: appends, never fails\<close>
  "buffer_Write p buf = (None, buf @ p)"

section \<open>Package cvmfs: script packing\<close>

text \<open>
  The read loop of \<open>packScript\<close>: an error other than \<open>io.EOF\<close> ends it with a
  wrapped error, a read of \<open>n \<noteq> 0\<close> bytes is appended to \<open>input\<close>, and a read of
  no bytes ends the loop.
\<close>

fun read_all :: "reader \<Rightarrow> byte list \<Rightarrow> error + byte list" where
  "read_all [] input = Inr input"
| "read_all ((buf, err) # rd) input =
     (case err of
        Some (IOFailure e) \<Rightarrow> Inl (Wrap e ''could not read input'')
      | _ \<Rightarrow> if length buf \<noteq> 0 then read_all rd (input @ buf) else Inr input)"

definition packScript :: "gziplib \<Rightarrow> reader \<Rightarrow> error + string" where
  "packScript gz rd =
     (case read_all rd [] of
        Inl e \<Rightarrow> Inl e
      | Inr input \<Rightarrow>
          (case gz_write gz input of
             WriteErr e \<Rightarrow> Inl (Wrap e ''could not compress script'')
           | CloseErr e \<Rightarrow> Inl (Wrap e ''could not close gzip compressor'')
           | Compressed output \<Rightarrow> Inr (EncodeToString output)))"

definition unpackScript :: "gziplib \<Rightarrow> string \<Rightarrow> 'w writer \<Rightarrow> 'w \<Rightarrow> error option \<times> 'w" where
  "unpackScript gz body Write dest =
     (case DecodeString body of
        Inl e \<Rightarrow> (Some (Wrap e ''base64 decoding failed''), dest)
      | Inr buf \<Rightarrow>
          (case gz_read gz buf of
             HeaderErr e \<Rightarrow> (Some (Wrap e ''gzip reader construction failed''), dest)
           | DataErr e \<Rightarrow> (Some (Wrap e ''decompression failed''), dest)
           | Raw rawbuf \<Rightarrow>
               (case Write rawbuf dest of
                  (Some e, dest') \<Rightarrow> (Some (Wrap e ''writing failed''), dest')
                | (None, dest') \<Rightarrow> (None, dest'))))"

section \<open>Package cvmfs: preparing a job specification\<close>

text \<open>
  \<open>Prepare\<close> works on the specification through a pointer, so the updated
  specification is part of the result also when an error is returned. Indexing the empty
  \<open>RepositoryPath\<close> is a runtime panic. \<open>Open\<close> is \<open>os.Open\<close> on the client's file
  system.
\<close>

definition Prepare ::
  "gziplib \<Rightarrow> (string \<Rightarrow> error + reader) \<Rightarrow> JobSpecification
     \<Rightarrow> (JobSpecification \<times> error option) outcome" where
  "Prepare gz Open spec =
     (case RepositoryPath spec of
        [] \<Rightarrow> Panic ''runtime error: index out of range''
      | c # _ \<Rightarrow>
          (let spec1 = (if c \<noteq> CHR ''/''
                        then spec\<lparr>RepositoryPath := ''/'' @ RepositoryPath spec\<rparr> else spec)
           in if Script spec1 \<noteq> [] then
                (if TransferScript spec1 then
                   (case Open (Script spec1) of
                      Inl err \<Rightarrow> Returned (spec1, Some (Wrap err ''could not open script''))
                    | Inr f \<Rightarrow>
                        (case packScript gz f of
                           Inl err \<Rightarrow> Returned (spec1, Some (Wrap err ''could not pack script''))
                         | Inr s \<Rightarrow> Returned (spec1\<lparr>Script := s\<rparr>, None)))
                 else Returned (spec1, None))
              else Returned (spec1, None)))"

text \<open>
  A stand-in for the compressor, used to run the model on concrete scripts: the two
  gzip magic bytes followed by the data as it is.
\<close>

definition stored_gzip :: gziplib where
  "stored_gzip =
     \<lparr> gz_write = (\<lambda>bs. Compressed (0x1F # 0x8B # bs)),
       gz_read = (\<lambda>z. case z of
                          a # b # bs \<Rightarrow>
                            if a = 0x1F \<and> b = 0x8B then Raw bs
                            else HeaderErr ''gzip: invalid header''
                        | _ \<Rightarrow> HeaderErr ''unexpected EOF'') \<rparr>"

section \<open>Package jobdb: the job database\<close>

text \<open>
  The package works on \<open>job.Processed\<close>, \<open>job.Status\<close> and \<open>job.GetJobReply\<close>,
  whose declarations are not among the sources; they are taken with the fields the
  package reads and writes, which are those of \<open>ProcessedJob\<close>, \<open>JobStatus\<close> and
  \<open>GetJobStatusReply\<close> above. A nil slice and an empty slice are both the empty list.
\<close>

subsection \<open>strings.Join and strings.Split\<close>

fun Join :: "string list \<Rightarrow> string \<Rightarrow> string" where
  "Join [] sep = []"
| "Join [x] sep = x"
| "Join (x # y # ys) sep = x @ sep @ Join (y # ys) sep"

text \<open>
  \<open>strings.Split(s, sep)\<close> for a separator of one character: the pieces of \<open>s\<close>
  between the separators; a string without separator, also the empty one, is one piece.
\<close>

fun Split :: "string \<Rightarrow> char \<Rightarrow> string list" where
  "Split [] c = [[]]"
| "Split (x # xs) c =
     (if x = c then [] # Split xs c
      else (case Split xs c of [] \<Rightarrow> [[x]] | y # ys \<Rightarrow> (x # y) # ys))"

subsection \<open>The table and the driver\<close>

text \<open>One row of table \<open>Jobs\<close>, with the columns in the order of the insert statement.\<close>

record Row =
  col_ID :: string
  col_Repository :: string
  col_Payload :: string
  col_RepositoryPath :: string
  col_Script :: string
  col_ScriptArgs :: string
  col_TransferScript :: bool
  col_Dependencies :: string
  col_StartTime :: int
  col_FinishTime :: int
  col_Successful :: bool
  col_ErrorMessage :: string

text \<open>
  The backend holds the committed rows, listed in the order in which the engine returns
  them to a select. The SQL driver is outside the repository: each of its calls either
  fails with the error \<open>fault\<close> gives for it or does its work on the table, and
  \<open>rows.Scan\<close> fails on a row when \<open>scan_fault\<close> says so. The rows of a result
  are fetched while the caller iterates: with \<open>fetch_fault = Some (n, err)\<close> fetching
  the row after the \<open>n\<close>-th of a result fails with \<open>err\<close>.
\<close>

datatype dbop = OpQuery | OpBegin | OpExec | OpCommit

record Backend =
  table :: "Row list"
  fault :: "dbop \<Rightarrow> error option"
  scan_fault :: "Row \<Rightarrow> error option"
  fetch_fault :: "(nat \<times> error) option"

text \<open>
  \<open>sql.Rows\<close>: \<open>rows.Next()\<close> is true once for each row of \<open>delivered\<close>, in
  order, and false then, at the end of the result as well as when fetching the next row
  failed; \<open>rows.Err()\<close> tells the two apart.
\<close>

record Rows =
  delivered :: "Row list"
  rows_Err :: "error option"

definition fetch :: "Backend \<Rightarrow> Row list \<Rightarrow> Rows" where
  "fetch b result =
     (case fetch_fault b of
        None \<Rightarrow> \<lparr> delivered = result, rows_Err = None \<rparr>
      | Some (n, err) \<Rightarrow>
          if n < length result then \<lparr> delivered = take n result, rows_Err = Some err \<rparr>
          else \<lparr> delivered = result, rows_Err = None \<rparr>)"

text \<open>
  Both select statements of the package return the rows whose \<open>ID\<close> is one of the bound
  parameters; the statement text itself is not interpreted. An unbound parameter is
  \<open>None\<close>.
\<close>

definition Query :: "Backend \<Rightarrow> string \<Rightarrow> string option list \<Rightarrow> error + Rows" where
  "Query b queryStr params =
     (case fault b OpQuery of
        Some err \<Rightarrow> Inl err
      | None \<Rightarrow> Inr (fetch b (filter (\<lambda>r. Some (col_ID r) \<in> set params) (table b))))"

definition scanRow :: "Backend \<Rightarrow> Row \<Rightarrow> error + ProcessedJob" where
  "scanRow b r =
     (case scan_fault b r of
        Some err \<Rightarrow> Inl err
      | None \<Rightarrow>
          Inr \<lparr> Repository = col_Repository r, Payload = col_Payload r,
                RepositoryPath = col_RepositoryPath r, Script = col_Script r,
                ScriptArgs = col_ScriptArgs r, TransferScript = col_TransferScript r,
                Dependencies = (if col_Dependencies r \<noteq> [] then Split (col_Dependencies r) CHR '','' else []),
                ID = col_ID r, WorkerName = [],
                StartTime = col_StartTime r, FinishTime = col_FinishTime r,
                Successful = col_Successful r, ErrorMessage = col_ErrorMessage r \<rparr>)"


text \<open>\<open>fmt.Sprintf("%v", n)\<close> for a non-negative integer: its decimal digits.\<close>

fun show_nat :: "nat \<Rightarrow> string" where
  "show_nat n =
     (if n < 10 then [char_of (48 + n)] else show_nat (n div 10) @ [char_of (48 + n mod 10)])"

text \<open>The loop of \<open>GetJobs\<close> over \<open>ids[0 : len(ids)-1]\<close>, from index \<open>i\<close> on.\<close>

fun bind_params ::
  "nat \<Rightarrow> string list \<Rightarrow> string \<Rightarrow> string option list \<Rightarrow> string \<times> string option list" where
  "bind_params i [] queryStr params = (queryStr, params)"
| "bind_params i (v # vs) queryStr params =
     bind_params (i + 1) vs (queryStr @ ''$'' @ show_nat (i + 1) @ '', '') (params[i := Some v])"

text \<open>
  The loop \<open>for rows.Next()\<close> of \<open>GetJobs\<close>, over the rows that are delivered.
  Neither \<open>GetJobs\<close> nor \<open>GetJob\<close> calls \<open>rows.Err()\<close>.
\<close>

fun scan_rows ::
  "Backend \<Rightarrow> bool \<Rightarrow> Row list \<Rightarrow> GetJobStatusReply \<Rightarrow> GetJobStatusReply \<times> error option" where
  "scan_rows b full [] reply = (reply, None)"
| "scan_rows b full (r # rows) reply =
     (case scanRow b r of
        Inl err \<Rightarrow>
          (reply\<lparr>Status := ''error'', Reason := ''SQL query scan failed'', IDs := [], Jobs := []\<rparr>,
           Some (Wrap err ''SQL query scan failed''))
      | Inr st \<Rightarrow>
          if full then scan_rows b full rows (reply\<lparr>Jobs := Jobs reply @ [st]\<rparr>)
          else scan_rows b full rows (reply\<lparr>IDs := IDs reply @ [(ID st, Successful st)]\<rparr>))"

text \<open>
  With no ID at all the slice expression \<open>ids[0 : len(ids)-1]\<close> has a negative bound
  and the call panics.
\<close>

definition GetJobs ::
  "Backend \<Rightarrow> string list \<Rightarrow> bool \<Rightarrow> (GetJobStatusReply \<times> error option) outcome" where
  "GetJobs b ids full =
     (let reply = \<lparr> Status = ''ok'', Reason = [], IDs = [], Jobs = [] \<rparr>
      in if ids = [] then Panic ''runtime error: slice bounds out of range''
         else
           (let (q, ps) = bind_params 0 (butlast ids) ''select * from Jobs where Jobs.ID in (''
                            (replicate (length ids) None);
                queryStr = q @ ''$'' @ show_nat (length ids) @ '');'';
                params = ps[length ids - 1 := Some (last ids)]
            in case Query b queryStr params of
                 Inl err \<Rightarrow>
                   Returned (reply\<lparr>Status := ''error'', Reason := ''SQL query failed''\<rparr>,
                             Some (Wrap err ''SQL query failed''))
               | Inr rows \<Rightarrow> Returned (scan_rows b full (delivered rows) reply)))"

text \<open>The values bound to the insert statement of \<open>PutJob\<close>, column by column.\<close>

definition insert_values :: "ProcessedJob \<Rightarrow> Row" where
  "insert_values j =
     \<lparr> col_ID = ID j, col_Repository = Repository j, col_Payload = Payload j,
       col_RepositoryPath = RepositoryPath j, col_Script = Script j,
       col_ScriptArgs = ScriptArgs j, col_TransferScript = TransferScript j,
       col_Dependencies = Join (Dependencies j) '','',
       col_StartTime = StartTime j, col_FinishTime = FinishTime j,
       col_Successful = Successful j, col_ErrorMessage = ErrorMessage j \<rparr>"

text \<open>
  \<open>PutJob\<close>: the row is in the table only after begin, exec and commit all succeeded;
  the deferred rollback leaves the table as it was otherwise.
\<close>

definition PutJob :: "Backend \<Rightarrow> ProcessedJob \<Rightarrow> (BasicReply \<times> error option) \<times> Backend" where
  "PutJob b j =
     (let reply = \<lparr> Status = ''ok'', Reason = [] \<rparr>
      in case fault b OpBegin of
           Some err \<Rightarrow>
             ((reply\<lparr>Status := ''error'', Reason := ''opening SQL transaction failed''\<rparr>,
               Some (Wrap err ''opening SQL transaction failed'')), b)
         | None \<Rightarrow>
             (case fault b OpExec of
                Some err \<Rightarrow>
                  ((reply\<lparr>Status := ''error'', Reason := ''executing SQL statement failed''\<rparr>,
                    Some (Wrap err ''executing SQL statement failed'')), b)
              | None \<Rightarrow>
                  (case fault b OpCommit of
                     Some err \<Rightarrow>
                       ((reply\<lparr>Status := ''error'', Reason := ''committing SQL transaction failed''\<rparr>,
                         Some (Wrap err ''committing SQL transaction failed'')), b)
                   | None \<Rightarrow> ((reply, None), b\<lparr>table := table b @ [insert_values j]\<rparr>))))"

subsection \<open>Example data\<close>

definition example_job :: ProcessedJob where
  "example_job =
     \<lparr> Repository = ''test-sw.hsf.org'', Payload = ''http://staging/ripgrep.tar.gz'',
       RepositoryPath = ''/ripgrep'', Script = [], ScriptArgs = [], TransferScript = False,
       Dependencies = [''a1'', ''b2''], ID = ''j1'', WorkerName = ''worker1'',
       StartTime = 10, FinishTime = 20, Successful = True, ErrorMessage = [] \<rparr>"

definition empty_db :: Backend where
  "empty_db =
     \<lparr> table = [], fault = (\<lambda>op. None), scan_fault = (\<lambda>r. None), fetch_fault = None \<rparr>"


text \<open>
  The same table on a connection that breaks while the second row of a result is
  fetched; every row scans.
\<close>

definition broken_fetch_db :: Backend where
  "broken_fetch_db =
     \<lparr> table = [insert_values example_job, insert_values (example_job\<lparr>ID := ''j2''\<rparr>)],
       fault = (\<lambda>op. None),
       scan_fault = (\<lambda>r. None),
       fetch_fault = Some (1, ''unexpected EOF'') \<rparr>"

section \<open>Package consume: the consumer loop\<close>

text \<open>
  \<open>job.Description\<close> with the fields the loop reads. A delivery is its body. The
  settlement calls of a delivery and the transactions started are recorded as events, in
  the order in which the loop makes them.
\<close>

record Description =
  desc_ID :: string
  Repo :: string
  Path :: string
  desc_Payload :: string

type_synonym Delivery = "byte list"

datatype event =
    Transaction Description
  | Ack bool
  | Nack bool bool

text \<open>
  What the loop calls outside the package, over a state \<open>'w\<close> of the worker's host:
  \<open>json.Unmarshal\<close> into the one \<open>desc\<close> variable shared by all iterations,
  \<open>os.MkdirAll\<close>, \<open>getter.GetFile\<close> and \<open>transaction.Run\<close>, which is handed the
  task as a function.
\<close>

record 'w consumer_env =
  Unmarshal :: "Delivery \<Rightarrow> Description \<Rightarrow> error option \<times> Description"
  MkdirAll :: "string \<Rightarrow> 'w \<Rightarrow> error option \<times> 'w"
  GetFile :: "string \<Rightarrow> string \<Rightarrow> 'w \<Rightarrow> error option \<times> 'w"
  transaction_Run :: "Description \<Rightarrow> ('w \<Rightarrow> error option \<times> 'w) \<Rightarrow> 'w \<Rightarrow> error option \<times> 'w"

definition task :: "'w consumer_env \<Rightarrow> Description \<Rightarrow> 'w \<Rightarrow> error option \<times> 'w" where
  "task env desc w =
     (let targetDir = ''/cvmfs/'' @ Repo desc @ ''/'' @ Path desc
      in case MkdirAll env targetDir w of
           (Some err, w1) \<Rightarrow> (Some err, w1)
         | (None, w1) \<Rightarrow>
             (case GetFile env targetDir (desc_Payload desc) w1 of
                (Some err, w2) \<Rightarrow> (Some err, w2)
              | (None, w2) \<Rightarrow> (None, w2)))"

text \<open>
  The loop \<open>for j := range jobs\<close> of \<open>Run\<close>, entered once the set-up has succeeded,
  over the deliveries that arrive on the channel.
\<close>

fun Run ::
  "'w consumer_env \<Rightarrow> Delivery list \<Rightarrow> Description \<Rightarrow> 'w \<Rightarrow> event list \<times> Description \<times> 'w" where
  "Run env [] desc w = ([], desc, w)"
| "Run env (j # jobs) desc w =
     (case Unmarshal env j desc of
        (Some err, desc1) \<Rightarrow>
          (case Run env jobs desc1 w of
             (evs, r) \<Rightarrow> (Nack False False # evs, r))
      | (None, desc1) \<Rightarrow>
          (case transaction_Run env desc1 (task env desc1) w of
             (Some err, w1) \<Rightarrow>
               (case Run env jobs desc1 w1 of
                  (evs, r) \<Rightarrow> (Transaction desc1 # Nack False True # evs, r))
           | (None, w1) \<Rightarrow>
               (case Run env jobs desc1 w1 of
                  (evs, r) \<Rightarrow> (Transaction desc1 # Ack False # evs, r))))"

text \<open>
  A host on which every payload download fails: the state counts the downloads tried,
  every message but the empty one parses, and the transaction runs its task and hands
  its error on.
\<close>

definition failing_fetch :: "nat consumer_env" where
  "failing_fetch =
     \<lparr> Unmarshal = (\<lambda>body desc.
         if body = [] then (Some ''unexpected end of JSON input'', desc)
         else (None, desc\<lparr>desc_Payload := ''http://staging/payload.tar.gz''\<rparr>)),
       MkdirAll = (\<lambda>dir w. (None, w)),
       GetFile = (\<lambda>dir src w. (Some ''download failed'', Suc w)),
       transaction_Run = (\<lambda>desc t w. t w) \<rparr>"

definition example_desc :: Description where
  "example_desc =
     \<lparr> desc_ID = ''j1'', Repo = ''test-sw.hsf.org'', Path = ''ripgrep'', desc_Payload = [] \<rparr>"

section \<open>Package cvmfs: processing a job on the worker\<close>

unbundle bit_operations_syntax

subsection \<open>path.Join\<close>

text \<open>
  \<open>path.Clean\<close> works on the elements between the slashes: empty elements and \<open>.\<close>
  go, \<open>..\<close> takes the element before it along, and a \<open>..\<close> at the root of a rooted
  path goes too. \<open>out\<close> holds the elements kept so far, the last one first.
\<close>

fun clean_elements :: "bool \<Rightarrow> string list \<Rightarrow> string list \<Rightarrow> string list" where
  "clean_elements rooted [] out = rev out"
| "clean_elements rooted (p # ps) out =
     (if p = [] \<or> p = ''.'' then clean_elements rooted ps out
      else if p = ''..'' then
        (case out of
           [] \<Rightarrow> if rooted then clean_elements rooted ps []
                 else clean_elements rooted ps [''..'']
         | q # qs \<Rightarrow>
             if q = ''..'' then clean_elements rooted ps (''..'' # out)
             else clean_elements rooted ps qs)
      else clean_elements rooted ps (p # out))"

definition path_Clean :: "string \<Rightarrow> string" where
  "path_Clean p =
     (case p of
        [] \<Rightarrow> ''.''
      | c # _ \<Rightarrow>
          (let rooted = (c = CHR ''/'');
               body = Join (clean_elements rooted (Split p CHR ''/'') []) ''/''
           in if rooted then ''/'' @ body else if body = [] then ''.'' else body))"

text \<open>
  \<open>path.Join\<close>: the elements joined with slashes and cleaned, empty elements ignored;
  the empty string when there is no non-empty element.
\<close>

definition path_Join :: "string list \<Rightarrow> string" where
  "path_Join elem =
     (if filter (\<lambda>e. e \<noteq> []) elem = [] then []
      else path_Clean (Join (filter (\<lambda>e. e \<noteq> []) elem) ''/''))"

subsection \<open>The worker's host\<close>

text \<open>
  The worker's file system: each path that exists has permission bits and a content, and
  \<open>fopen\<close> says whether the worker holds the file open for writing. \<open>umask\<close> is the
  file mode creation mask of the worker process.
\<close>

record File =
  fmode :: "32 word"
  fdata :: "byte list"
  fopen :: bool

record world =
  files :: "string \<rightharpoonup> File"
  umask :: "32 word"

text \<open>
  What \<open>process\<close> calls outside the repository: \<open>os.MkdirAll\<close>, \<open>getter.Get\<close>, the
  failures of creating and of writing a file, the search of a program name in
  \<open>$PATH\<close>, and what a program does once it has been started (program, arguments,
  working directory).
\<close>

record sys =
  os_MkdirAll :: "string \<Rightarrow> 32 word \<Rightarrow> world \<Rightarrow> error option \<times> world"
  getter_Get :: "string \<Rightarrow> string \<Rightarrow> world \<Rightarrow> error option \<times> world"
  create_fault :: "string \<Rightarrow> world \<Rightarrow> error option"
  write_fault :: "string \<Rightarrow> world \<Rightarrow> error option"
  LookPath :: "string \<Rightarrow> world \<Rightarrow> error + string"
  execute :: "string \<Rightarrow> string list \<Rightarrow> string \<Rightarrow> world \<Rightarrow> error option \<times> world"

text \<open>
  \<open>os.Create(name)\<close> is \<open>OpenFile(name, O_RDWR|O_CREATE|O_TRUNC, 0666)\<close>: a new file
  gets mode \<open>0666\<close> less the umask, an existing one is truncated and keeps its mode;
  either way the file is then open for writing. Permission bits are written in decimal:
  octal \<open>0666\<close> is 438, \<open>0755\<close> is 493, and the three execute bits \<open>0111\<close> are 73.
\<close>

definition os_Create :: "sys \<Rightarrow> string \<Rightarrow> world \<Rightarrow> error option \<times> world" where
  "os_Create s name w =
     (case create_fault s name w of
        Some err \<Rightarrow> (Some err, w)
      | None \<Rightarrow>
          (None, w\<lparr>files := (files w)(name \<mapsto>
             (case files w name of
                None \<Rightarrow> \<lparr> fmode = 438 AND NOT (umask w), fdata = [], fopen = True \<rparr>
              | Some f \<Rightarrow> f\<lparr>fdata := [], fopen := True\<rparr>))\<rparr>))"

definition file_Write :: "sys \<Rightarrow> string \<Rightarrow> world writer" where
  "file_Write s name p w =
     (case write_fault s name w of
        Some err \<Rightarrow> (Some err, w)
      | None \<Rightarrow>
          (case files w name of
             None \<Rightarrow> (Some ''file already closed'', w)
           | Some f \<Rightarrow> (None, w\<lparr>files := (files w)(name \<mapsto> f\<lparr>fdata := fdata f @ p\<rparr>)\<rparr>)))"

text \<open>
  \<open>defer f.Close()\<close>: the file that \<open>process\<close> created, if it got that far, is closed
  when \<open>process\<close> returns, and not before.
\<close>

definition deferred_Close :: "string option \<Rightarrow> world \<Rightarrow> world" where
  "deferred_Close opened w =
     (case opened of
        None \<Rightarrow> w
      | Some name \<Rightarrow>
          (case files w name of
             None \<Rightarrow> w
           | Some f \<Rightarrow> w\<lparr>files := (files w)(name \<mapsto> f\<lparr>fopen := False\<rparr>)\<rparr>))"

definition executable :: "world \<Rightarrow> string \<Rightarrow> bool" where
  "executable w name = (case files w name of None \<Rightarrow> False | Some f \<Rightarrow> fmode f AND 73 \<noteq> 0)"

text \<open>
  \<open>runScript\<close>: \<open>exec.Command(script, repo, repoPath, args)\<close> run in the repository
  directory. A program name without a slash is searched in \<open>$PATH\<close>, and a failed
  search is the error of \<open>cmd.Run\<close>. The operating system refuses to start a file that
  does not exist, a file that has no execute permission bit at all (permission denied,
  for every user), and a file that is open for writing (text file busy); what happens
  otherwise is up to \<open>execute\<close>.
\<close>

definition runScript :: "sys \<Rightarrow> string \<Rightarrow> string \<Rightarrow> string \<Rightarrow> string \<Rightarrow> world \<Rightarrow> error option \<times> world" where
  "runScript s script repo repoPath args w =
     (let dir = path_Join [''/cvmfs'', repo]
      in case (if CHR ''/'' \<in> set script \<or> script = [] then Inr script else LookPath s script w) of
           Inl err \<Rightarrow> (Some err, w)
         | Inr prog \<Rightarrow>
             (case files w prog of
                None \<Rightarrow> (Some (''fork/exec '' @ prog @ '': no such file or directory''), w)
              | Some f \<Rightarrow>
                  if \<not> executable w prog
                  then (Some (''fork/exec '' @ prog @ '': permission denied''), w)
                  else if fopen f
                  then (Some (''fork/exec '' @ prog @ '': text file busy''), w)
                  else execute s prog [repo, repoPath, args] dir w))"

text \<open>
  \<open>process\<close>. The middle component of the inner result is the file that was created
  and is still open, for the deferred close.
\<close>

definition process ::
  "gziplib \<Rightarrow> sys \<Rightarrow> string \<Rightarrow> 'a UnprocessedJob_scheme \<Rightarrow> world \<Rightarrow> error option \<times> world" where
  "process gz s tempDir j w =
     (let targetDir = path_Join [''/cvmfs'', Repository j, RepositoryPath j]
      in case os_MkdirAll s targetDir 493 w of
           (Some err, w1) \<Rightarrow> (Some (Wrap err ''could not create target dir''), w1)
         | (None, w1) \<Rightarrow>
             (case (if Payload j \<noteq> [] then getter_Get s targetDir (Payload j) w1 else (None, w1)) of
                (Some err, w2) \<Rightarrow> (Some (Wrap err ''could not download payload''), w2)
              | (None, w2) \<Rightarrow>
                  if Script j \<noteq> [] then
                    (case (if TransferScript j then
                             (let scriptFile = path_Join [tempDir, ''transaction.sh'']
                              in case os_Create s scriptFile w2 of
                                   (Some err, w3) \<Rightarrow>
                                     (Inl (Wrap err ''creating destination file failed''), None, w3)
                                 | (None, w3) \<Rightarrow>
                                     (case unpackScript gz (Script j) (file_Write s scriptFile) w3 of
                                        (Some err, w4) \<Rightarrow>
                                          (Inl (Wrap err ''unpacking transaction script failed''),
                                           Some scriptFile, w4)
                                      | (None, w4) \<Rightarrow> (Inr scriptFile, Some scriptFile, w4)))
                           else (Inr (Script j), None, w2)) of
                       (Inl err, opened, w5) \<Rightarrow> (Some err, deferred_Close opened w5)
                     | (Inr scriptFile, opened, w5) \<Rightarrow>
                         (case runScript s scriptFile (Repository j) (RepositoryPath j) (ScriptArgs j) w5 of
                            (Some err, w6) \<Rightarrow>
                              (Some (Wrap err ''running transaction script failed''),
                               deferred_Close opened w6)
                          | (None, w6) \<Rightarrow> (None, deferred_Close opened w6)))
                  else (None, w2)))"

text \<open>
  A worker host for running the model: directories and downloads that succeed, no
  failing file operation, an empty \<open>$PATH\<close>, and scripts that succeed once started.
\<close>

definition plain_sys :: sys where
  "plain_sys =
     \<lparr> os_MkdirAll = (\<lambda>dir perm w. (None, w)),
       getter_Get = (\<lambda>dir src w. (None, w)),
       create_fault = (\<lambda>name w. None),
       write_fault = (\<lambda>name w. None),
       LookPath = (\<lambda>name w. Inl (''exec: '' @ name @ '': executable file not found in $PATH'')),
       execute = (\<lambda>prog args dir w. (None, w)) \<rparr>"

text \<open>
  A script of two lines, \<open>#!/bin/sh\<close> and \<open>ls\<close>, and a gzip stream of it in the form
  that \<open>compress/gzip\<close> writes: the ten bytes of the header, the script as one
  block of fixed Huffman codes, an empty final block, the CRC-32 and the length.
\<close>

definition example_script :: "byte list" where
  "example_script =
     [0x23, 0x21, 0x2F, 0x62, 0x69, 0x6E, 0x2F, 0x73, 0x68, 0x0A, 0x6C, 0x73, 0x0A]"

definition example_script_gz :: "byte list" where
  "example_script_gz =
     [0x1F, 0x8B, 0x08, 0x00, 0x00, 0x00, 0x00, 0x00, 0x00, 0xFF,
      0x52, 0x56, 0xD4, 0x4F, 0xCA, 0xCC, 0xD3, 0x2F, 0xCE, 0xE0, 0xCA, 0x29, 0xE6, 0x02,
      0x04, 0x00, 0x00, 0xFF, 0xFF,
      0x99, 0xC7, 0x35, 0xA0, 0x0D, 0x00, 0x00, 0x00]"

text \<open>
  A job that carries this script packed (the text is the base64 form of the stream
  above), and a worker whose temporary directory is empty, with the usual umask
  \<open>022\<close> (18 in decimal).
\<close>

definition packed_job :: UnprocessedJob where
  "packed_job =
     \<lparr> Repository = ''test-sw.hsf.org'', Payload = [], RepositoryPath = ''/ripgrep'',
       Script = ''H4sIAAAAAAAA/1JW1E/KzNMvzuDKKeYCBAAA//+ZxzWgDQAAAA=='',
       ScriptArgs = ''--all'', TransferScript = True,
       Dependencies = [], ID = ''j1'' \<rparr>"

definition fresh_world :: world where
  "fresh_world = \<lparr> files = Map.empty, umask = 18 \<rparr>"

section \<open>Worker engine: the time limit of a job\<close>

datatype txn_state = TxOpen | TxCommitted | TxAborted

datatype job_failure = TimeoutError | ProcessError error

text \<open>
  Modelled from the spec: the code that enforces \<open>MaxJobDuration\<close> (the worker's
  execution of one job inside an open transaction) is not among the sources; only the
  constant is. Following the specification, a job whose execution takes more than the
  limit has its transaction aborted and is finalized as failed with a timeout error; within
  the limit the transaction is committed when processing succeeded and aborted with
  the processing error otherwise. \<open>elapsed\<close> is the duration of the execution in
  seconds, \<open>result\<close> what \<open>process\<close> returned.
\<close>

definition finalize_job :: "nat \<Rightarrow> error option \<Rightarrow> txn_state \<times> bool \<times> job_failure option" where
  "finalize_job elapsed result =
     (if elapsed > MaxJobDuration then (TxAborted, False, Some TimeoutError)
      else (case result of
              None \<Rightarrow> (TxCommitted, True, None)
            | Some err \<Rightarrow> (TxAborted, False, Some (ProcessError err))))"

section \<open>Properties of the base64 codec\<close>

lemma index_of_nth: "distinct xs \<Longrightarrow> n < length xs \<Longrightarrow> index_of (xs ! n) xs = Some n"
proof (induction xs arbitrary: n)
  case Nil then show ?case by simp
next
  case (Cons x xs)
  show ?case
  proof (cases n)
    case 0 then show ?thesis by simp
  next
    case (Suc m)
    with Cons.prems have "m < length xs" "xs ! m \<noteq> x" "distinct xs" by auto
    with Cons.IH[of m] Suc show ?thesis by simp
  qed
qed

lemma length_encodeStd: "length encodeStd = 64"
  by (simp add: encodeStd_def)

lemma distinct_encodeStd: "distinct encodeStd"
  by (simp add: encodeStd_def)

lemma dec6_enc6: "n < 64 \<Longrightarrow> dec6 (enc6 n) = Some n"
  by (simp add: dec6_def enc6_def index_of_nth distinct_encodeStd length_encodeStd)

lemma enc6_in: "n < 64 \<Longrightarrow> enc6 n \<in> set encodeStd"
  by (simp add: enc6_def length_encodeStd)

lemma special_notin:
  "CHR ''='' \<notin> set encodeStd" "CHR 0x0D \<notin> set encodeStd" "CHR 0x0A \<notin> set encodeStd"
  by (simp_all add: encodeStd_def)

lemma enc6_neq:
  assumes "n < 64"
  shows "enc6 n \<noteq> CHR ''=''" "enc6 n \<noteq> CHR 0x0D" "enc6 n \<noteq> CHR 0x0A"
proof -
  have "enc6 n \<in> set encodeStd" using assms by (rule enc6_in)
  then show "enc6 n \<noteq> CHR ''=''" "enc6 n \<noteq> CHR 0x0D" "enc6 n \<noteq> CHR 0x0A"
    using special_notin by auto
qed

lemma divmod_shift:
  fixes q r k :: nat
  assumes "r < k"
  shows "(q * k + r) div k = q" "(q * k + r) mod k = r"
  using assms by simp_all

lemma bytes3:
  fixes a b c :: nat
  assumes "a < 256" "b < 256" "c < 256"
  shows "(a * 65536 + b * 256 + c) div 65536 mod 256 = a"
    "(a * 65536 + b * 256 + c) div 256 mod 256 = b"
    "(a * 65536 + b * 256 + c) mod 256 = c"
proof -
  have e: "a * 65536 + b * 256 + c = (a * 256 + b) * 256 + c" by simp
  have e': "a * 65536 + b * 256 + c = a * 65536 + (b * 256 + c)" by simp
  have f: "b * 256 + c < 65536" using assms by simp
  show "(a * 65536 + b * 256 + c) div 65536 mod 256 = a"
    by (simp only: e' divmod_shift(1)[OF f] mod_less[OF assms(1)])
  show "(a * 65536 + b * 256 + c) div 256 mod 256 = b"
    by (simp only: e divmod_shift[OF assms(3)] divmod_shift[OF assms(2)])
  show "(a * 65536 + b * 256 + c) mod 256 = c"
    by (simp only: e divmod_shift(2)[OF assms(3)])
qed

lemma digits4:
  fixes v :: nat
  assumes "v < 16777216"
  shows "v div 262144 mod 64 * 262144 + v div 4096 mod 64 * 4096 + v div 64 mod 64 * 64 + v mod 64 = v"
proof -
  have a: "v div 262144 mod 64 = v div 262144" using assms by simp
  have "v div 4096 div 64 = v div 262144" by (simp add: div_mult2_eq[symmetric])
  then have b: "v div 4096 = v div 262144 * 64 + v div 4096 mod 64"
    using div_mult_mod_eq[of "v div 4096" 64] by simp
  have "v div 64 div 64 = v div 4096" by (simp add: div_mult2_eq[symmetric])
  then have c: "v div 64 = v div 4096 * 64 + v div 64 mod 64"
    using div_mult_mod_eq[of "v div 64" 64] by simp
  have d: "v = v div 64 * 64 + v mod 64" by simp
  show ?thesis using a b c d by linarith
qed

lemma digits3:
  fixes v :: nat
  assumes "v < 16777216" "v mod 64 = 0"
  shows "v div 262144 mod 64 * 262144 + v div 4096 mod 64 * 4096 + v div 64 mod 64 * 64 = v"
proof -
  have "v div 262144 mod 64 * 262144 + v div 4096 mod 64 * 4096 + v div 64 mod 64 * 64 + v mod 64 = v"
    by (rule digits4[OF assms(1)])
  then show ?thesis by (simp only: assms(2) add_0_right)
qed

lemma digits2:
  fixes v :: nat
  assumes "v < 16777216" "v mod 64 = 0" "v div 64 mod 64 = 0"
  shows "v div 262144 mod 64 * 262144 + v div 4096 mod 64 * 4096 = v"
proof -
  have "v div 262144 mod 64 * 262144 + v div 4096 mod 64 * 4096 + v div 64 mod 64 * 64 + v mod 64 = v"
    by (rule digits4[OF assms(1)])
  then show ?thesis by (simp only: assms(2,3) add_0_right mult_0)
qed

lemma val24: "unat (a::byte) * 65536 + unat (b::byte) * 256 + unat (c::byte) < 16777216"
proof -
  have "unat a < 256" "unat b < 256" "unat c < 256"
    using unsigned_less[of a] unsigned_less[of b] unsigned_less[of c] by simp_all
  then show ?thesis by linarith
qed

lemma byte_lt: "unat (a::byte) < 256"
  using unsigned_less[of a] by simp

lemma quantum3:
  assumes "s0 < 64" "s1 < 64" "s2 < 64" "s3 < 64"
  shows "decode_quanta (enc6 s0 # enc6 s1 # enc6 s2 # enc6 s3 # rest) =
         (case decode_quanta rest of Inl e \<Rightarrow> Inl e
          | Inr bs \<Rightarrow>
              Inr (of_nat ((s0 * 262144 + s1 * 4096 + s2 * 64 + s3) div 65536 mod 256) #
                   of_nat ((s0 * 262144 + s1 * 4096 + s2 * 64 + s3) div 256 mod 256) #
                   of_nat ((s0 * 262144 + s1 * 4096 + s2 * 64 + s3) mod 256) # bs))"
  using assms by (simp add: dec6_enc6 enc6_neq)

lemma quantum2:
  assumes "s0 < 64" "s1 < 64" "s2 < 64"
  shows "decode_quanta [enc6 s0, enc6 s1, enc6 s2, CHR ''=''] =
         Inr [of_nat ((s0 * 262144 + s1 * 4096 + s2 * 64) div 65536 mod 256),
              of_nat ((s0 * 262144 + s1 * 4096 + s2 * 64) div 256 mod 256)]"
  using assms by (simp add: dec6_enc6 enc6_neq)

lemma quantum1:
  assumes "s0 < 64" "s1 < 64"
  shows "decode_quanta [enc6 s0, enc6 s1, CHR ''='', CHR ''=''] =
         Inr [of_nat ((s0 * 262144 + s1 * 4096) div 65536 mod 256)]"
  using assms by (simp add: dec6_enc6 enc6_neq)

lemma byte_of_unat: "of_nat (unat (a::byte)) = a"
  by simp

lemma m64: "(n::nat) mod 64 < 64" by simp

lemma decode_encode: "decode_quanta (EncodeToString bs) = Inr bs"
proof (induction bs rule: EncodeToString.induct)
  case (1 a b c rest)
  define v where "v = unat a * 65536 + unat b * 256 + unat c"
  have v: "v < 16777216" unfolding v_def by (rule val24)
  have "decode_quanta (EncodeToString (a # b # c # rest)) =
        decode_quanta (enc6 (v div 262144 mod 64) # enc6 (v div 4096 mod 64) #
          enc6 (v div 64 mod 64) # enc6 (v mod 64) # EncodeToString rest)"
    by (simp only: EncodeToString.simps Let_def v_def)
  also have "\<dots> = Inr (of_nat (v div 65536 mod 256) # of_nat (v div 256 mod 256) #
                       of_nat (v mod 256) # rest)"
    by (simp only: quantum3[OF m64 m64 m64 m64] digits4[OF v] "1.IH" sum.case)
  also have "\<dots> = Inr (a # b # c # rest)"
    unfolding v_def by (simp only: bytes3[OF byte_lt byte_lt byte_lt] byte_of_unat)
  finally show ?case .
next
  case (2 a b)
  define v where "v = unat a * 65536 + unat b * 256"
  have v0: "v = unat a * 65536 + unat b * 256 + unat (0::byte)" by (simp add: v_def)
  have v: "v < 16777216" unfolding v0 by (rule val24)
  have z: "v mod 64 = 0" unfolding v_def by simp
  have "decode_quanta (EncodeToString [a, b]) =
        decode_quanta [enc6 (v div 262144 mod 64), enc6 (v div 4096 mod 64),
          enc6 (v div 64 mod 64), CHR ''='']"
    by (simp only: EncodeToString.simps Let_def v_def)
  also have "\<dots> = Inr [of_nat (v div 65536 mod 256), of_nat (v div 256 mod 256)]"
    by (simp only: quantum2[OF m64 m64 m64] digits3[OF v z])
  also have "\<dots> = Inr [a, b]"
    unfolding v0 by (simp only: bytes3[OF byte_lt byte_lt byte_lt] byte_of_unat)
  finally show ?case .
next
  case (3 a)
  define v where "v = unat a * 65536"
  have v0: "v = unat a * 65536 + unat (0::byte) * 256 + unat (0::byte)" by (simp add: v_def)
  have v: "v < 16777216" unfolding v0 by (rule val24)
  have z: "v mod 64 = 0" "v div 64 mod 64 = 0" unfolding v_def by simp_all
  have "decode_quanta (EncodeToString [a]) =
        decode_quanta [enc6 (v div 262144 mod 64), enc6 (v div 4096 mod 64),
          CHR ''='', CHR ''='']"
    by (simp only: EncodeToString.simps Let_def v_def)
  also have "\<dots> = Inr [of_nat (v div 65536 mod 256)]"
    by (simp only: quantum1[OF m64 m64] digits2[OF v z])
  also have "\<dots> = Inr [a]"
    unfolding v0 by (simp only: bytes3[OF byte_lt byte_lt byte_lt] byte_of_unat)
  finally show ?case .
next
  case 4
  show ?case by simp
qed

lemma set_EncodeToString: "set (EncodeToString bs) \<subseteq> insert (CHR ''='') (set encodeStd)"
proof (induction bs rule: EncodeToString.induct)
  case (1 a b c rest)
  then show ?case by (simp only: EncodeToString.simps Let_def set_simps insert_subset enc6_in[OF m64] insertI1 insertI2 simp_thms)
next
  case (2 a b)
  show ?case by (simp only: EncodeToString.simps Let_def set_simps insert_subset enc6_in[OF m64] insertI1 insertI2 simp_thms empty_subsetI)
next
  case (3 a)
  show ?case by (simp only: EncodeToString.simps Let_def set_simps insert_subset enc6_in[OF m64] insertI1 insertI2 simp_thms empty_subsetI)
next
  case 4
  show ?case by simp
qed

lemma filter_EncodeToString:
  "filter (\<lambda>c. c \<noteq> CHR 0x0D \<and> c \<noteq> CHR 0x0A) (EncodeToString bs) = EncodeToString bs"
proof -
  have "\<forall>c \<in> set (EncodeToString bs). c \<noteq> CHR 0x0D \<and> c \<noteq> CHR 0x0A"
    using set_EncodeToString[of bs] special_notin by auto
  then show ?thesis by (simp only: filter_id_conv)
qed

lemma DecodeString_EncodeToString: "DecodeString (EncodeToString bs) = Inr bs"
  by (simp only: DecodeString_def filter_EncodeToString decode_encode)

section \<open>Properties of the script packer\<close>

lemma read_all_clean:
  assumes "\<forall>(buf, err) \<in> set rd. buf \<noteq> [] \<and> (err = None \<or> err = Some EOF)"
  shows "read_all rd input = Inr (input @ concat (map fst rd))"
  using assms
proof (induction rd arbitrary: input)
  case Nil
  show ?case by simp
next
  case (Cons r rd)
  obtain buf err where r: "r = (buf, err)" by (cases r)
  from Cons.prems r have b: "buf \<noteq> []" and e: "err = None \<or> err = Some EOF" by auto
  from Cons.prems have rest: "\<forall>(buf, err) \<in> set rd. buf \<noteq> [] \<and> (err = None \<or> err = Some EOF)"
    by simp
  from e show ?case
    using b r Cons.IH[OF rest, of "input @ buf"] by auto
qed

lemma file_reader_clean:
  "\<forall>(buf, err) \<in> set (file_reader k bs). buf \<noteq> [] \<and> (err = None \<or> err = Some EOF)"
  by (induction k bs rule: file_reader.induct) auto

lemma file_reader_concat: "0 < k \<Longrightarrow> concat (map fst (file_reader k bs)) = bs"
proof (induction k bs rule: file_reader.induct)
  case (3 k b bs)
  then have "concat (map fst (file_reader (Suc k) (drop k bs))) = drop k bs" by simp
  then show ?case by simp
qed simp_all

lemma read_all_file: "0 < k \<Longrightarrow> read_all (file_reader k bs) [] = Inr bs"
  by (simp add: read_all_clean[OF file_reader_clean] file_reader_concat)

lemma EncodeToString_example: "EncodeToString [0x1F, 0x8B, 0x68, 0x69, 0x0A] = ''H4toaQo=''"
  by (simp add: enc6_def encodeStd_def)

text \<open>
  Claim C3. Packing a script and unpacking the packed string gives back the script, byte
  for byte: for a file of content \<open>bs\<close>, read through a buffer of any size \<open>k > 0\<close>,
  \<open>packScript\<close> returns the base64 text of the compressed bytes, and \<open>unpackScript\<close>
  on that text hands exactly \<open>bs\<close> to the destination's \<open>Write\<close>, whatever the
  destination is; a buffer that was empty then holds \<open>bs\<close>. The base64 codec is the one
  defined above; the gzip library is taken with its contract on this input, that it
  compresses \<open>bs\<close> to some \<open>z\<close> and decompresses \<open>z\<close> to \<open>bs\<close>.
\<close>

theorem pack_unpack:
  assumes "0 < k" and "gz_write gz bs = Compressed z" and "gz_read gz z = Raw bs"
  shows "packScript gz (file_reader k bs) = Inr (EncodeToString z) \<and>
         unpackScript gz (EncodeToString z) Write dest =
           (case Write bs dest of
              (Some e, dest') \<Rightarrow> (Some (Wrap e ''writing failed''), dest')
            | (None, dest') \<Rightarrow> (None, dest')) \<and>
         unpackScript gz (EncodeToString z) buffer_Write [] = (None, bs)"
  using assms
  by (simp add: packScript_def unpackScript_def read_all_file DecodeString_EncodeToString buffer_Write_def)

theorem pack_unpack_witness:
  "packScript stored_gzip (file_reader 4096 [0x68, 0x69, 0x0A]) = Inr ''H4toaQo='' \<and>
   unpackScript stored_gzip ''H4toaQo='' buffer_Write [] = (None, [0x68, 0x69, 0x0A])"
proof -
  have h1: "0 < (4096::nat)" by simp
  have h2: "gz_write stored_gzip [0x68, 0x69, 0x0A] = Compressed [0x1F, 0x8B, 0x68, 0x69, 0x0A]"
    by (simp add: stored_gzip_def)
  have h3: "gz_read stored_gzip [0x1F, 0x8B, 0x68, 0x69, 0x0A] = Raw [0x68, 0x69, 0x0A]"
    by (simp add: stored_gzip_def)
  from pack_unpack[OF h1 h2 h3, of buffer_Write "[]"] show ?thesis
    unfolding EncodeToString_example by blast
qed
section \<open>Properties of Prepare\<close>

text \<open>
  Claim C4. For a specification with a non-empty \<open>RepositoryPath\<close>, when \<open>Prepare\<close>
  returns without error the path begins with the separator: a path that did not start
  with \<open>/\<close> has got one put in front, and a path that did is as it was.
\<close>

theorem Prepare_leading_separator:
  assumes "RepositoryPath spec \<noteq> []"
    and "Prepare gz Open spec = Returned (spec', None)"
  shows "(\<exists>rest. RepositoryPath spec' = CHR ''/'' # rest) \<and>
         RepositoryPath spec' =
           (if hd (RepositoryPath spec) \<noteq> CHR ''/'' then CHR ''/'' # RepositoryPath spec
            else RepositoryPath spec)"
  using assms
  by (auto simp: Prepare_def Let_def split: list.splits if_splits sum.splits)

theorem Prepare_leading_separator_witness:
  "RepositoryPath \<lparr> Repository = ''test-sw.hsf.org'', Payload = [], RepositoryPath = ''foo'',
       Script = [], ScriptArgs = [], TransferScript = False, Dependencies = [] \<rparr> \<noteq> [] \<and>
   Prepare stored_gzip (\<lambda>name. Inl ''no such file or directory'')
     \<lparr> Repository = ''test-sw.hsf.org'', Payload = [], RepositoryPath = ''foo'',
       Script = [], ScriptArgs = [], TransferScript = False, Dependencies = [] \<rparr> =
     Returned (\<lparr> Repository = ''test-sw.hsf.org'', Payload = [], RepositoryPath = ''/foo'',
       Script = [], ScriptArgs = [], TransferScript = False, Dependencies = [] \<rparr>, None)"
proof -
  let ?spec = "\<lparr> Repository = ''test-sw.hsf.org'', Payload = [], RepositoryPath = ''foo'',
       Script = [], ScriptArgs = [], TransferScript = False, Dependencies = [] \<rparr>"
  have h1: "RepositoryPath ?spec \<noteq> []" by simp
  obtain spec' where h2: "Prepare stored_gzip (\<lambda>name. Inl ''no such file or directory'') ?spec = Returned (spec', None)"
    by (simp add: Prepare_def)
  have r: "Repository spec' = ''test-sw.hsf.org'' \<and> Payload spec' = [] \<and> Script spec' = [] \<and> ScriptArgs spec' = []
     \<and> TransferScript spec' = False \<and> Dependencies spec' = []"
    using h2 by (auto simp: Prepare_def)
  from Prepare_leading_separator[OF h1 h2] have "RepositoryPath spec' = ''/foo''" by simp
  with r have "spec' = \<lparr> Repository = ''test-sw.hsf.org'', Payload = [], RepositoryPath = ''/foo'',
       Script = [], ScriptArgs = [], TransferScript = False, Dependencies = [] \<rparr>" by simp
  with h1 h2 show ?thesis by simp
qed

text \<open>
  Claim C9. \<open>Prepare\<close> reads the first character of \<open>RepositoryPath\<close> before anything
  else: it panics with an index out of range exactly when the path is empty, no error is
  returned in its place, and it returns exactly when the path is non-empty.
\<close>

theorem Prepare_panics_iff_empty:
  "(Prepare gz Open spec = Panic ''runtime error: index out of range'') = (RepositoryPath spec = []) \<and>
   (\<exists>r. Prepare gz Open spec = Returned r) = (RepositoryPath spec \<noteq> [])"
  by (auto simp: Prepare_def Let_def split: list.splits if_splits sum.splits)

section \<open>Properties of the job database\<close>

subsection \<open>Dependencies column\<close>

lemma Split_no_sep: "c \<notin> set x \<Longrightarrow> Split x c = [x]"
  by (induction x) auto

lemma Split_append: "c \<notin> set x \<Longrightarrow> Split (x @ c # rest) c = x # Split rest c"
  by (induction x) auto

lemma Split_Join:
  "xs \<noteq> [] \<Longrightarrow> \<forall>x \<in> set xs. c \<notin> set x \<Longrightarrow> Split (Join xs [c]) c = xs"
proof (induction xs "[c]" rule: Join.induct)
  case 1
  then show ?case by simp
next
  case (2 x)
  then show ?case by (simp add: Split_no_sep)
next
  case (3 x y ys)
  then show ?case by (simp add: Split_append)
qed

lemma Join_nonempty: "xs \<noteq> [] \<Longrightarrow> \<forall>x \<in> set xs. x \<noteq> [] \<Longrightarrow> Join xs sep \<noteq> []"
  by (induction xs sep rule: Join.induct) auto

lemma scanRow_insert_values:
  assumes "\<forall>d \<in> set (Dependencies j). d \<noteq> [] \<and> CHR '','' \<notin> set d"
    and "scan_fault b (insert_values j) = None"
  shows "\<exists>st. scanRow b (insert_values j) = Inr st \<and> Dependencies st = Dependencies j"
proof (cases "Dependencies j = []")
  case True
  then show ?thesis using assms(2) by (simp add: scanRow_def insert_values_def)
next
  case False
  have ne: "Join (Dependencies j) '','' \<noteq> []"
    using False assms(1) by (simp add: Join_nonempty)
  have sp: "Split (Join (Dependencies j) '','') CHR '','' = Dependencies j"
    using False assms(1) by (simp add: Split_Join)
  show ?thesis using assms(2) ne sp by (simp add: scanRow_def insert_values_def)
qed

text \<open>
  Claim C10. When no dependency is empty or contains a comma, the row that a successful
  \<open>PutJob\<close> stores holds the dependencies joined with commas, and \<open>scanRow\<close> on that
  row gives the job's dependency list back; the empty list is stored as the empty string
  and read back as the empty list.
\<close>

theorem Dependencies_roundtrip:
  assumes "\<forall>d \<in> set (Dependencies j). d \<noteq> [] \<and> CHR '','' \<notin> set d"
    and "PutJob b j = ((reply, None), b')"
    and "scan_fault b' (last (table b')) = None"
  shows "col_Dependencies (last (table b')) = Join (Dependencies j) '','' \<and>
         (\<exists>st. scanRow b' (last (table b')) = Inr st \<and> Dependencies st = Dependencies j) \<and>
         (Dependencies j = [] \<longrightarrow> col_Dependencies (last (table b')) = [])"
proof -
  from assms(2) have l: "last (table b') = insert_values j"
    by (auto simp: PutJob_def Let_def split: option.splits)
  have c: "col_Dependencies (insert_values j) = Join (Dependencies j) '',''"
    by (simp add: insert_values_def)
  from scanRow_insert_values[OF assms(1), of b'] assms(3) l
  have "\<exists>st. scanRow b' (last (table b')) = Inr st \<and> Dependencies st = Dependencies j" by simp
  then show ?thesis using l c by auto
qed

theorem Dependencies_roundtrip_witness:
  "Dependencies example_job = [''a1'', ''b2''] \<and>
   fst (PutJob empty_db example_job) = (\<lparr> Status = ''ok'', Reason = [] \<rparr>, None) \<and>
   col_Dependencies (last (table (snd (PutJob empty_db example_job)))) = ''a1,b2'' \<and>
   (\<exists>st. scanRow (snd (PutJob empty_db example_job)) (last (table (snd (PutJob empty_db example_job)))) = Inr st \<and>
         Dependencies st = [''a1'', ''b2''])"
proof -
  have h1: "\<forall>d \<in> set (Dependencies example_job). d \<noteq> [] \<and> CHR '','' \<notin> set d"
    by (simp add: example_job_def)
  have h2: "PutJob empty_db example_job =
      ((\<lparr> Status = ''ok'', Reason = [] \<rparr>, None), snd (PutJob empty_db example_job))"
    by (simp add: PutJob_def empty_db_def)
  have h3: "scan_fault (snd (PutJob empty_db example_job)) (last (table (snd (PutJob empty_db example_job)))) = None"
    by (simp add: PutJob_def empty_db_def)
  have d: "Dependencies example_job = [''a1'', ''b2'']" by (simp add: example_job_def)
  have h4: "fst (PutJob empty_db example_job) = (\<lparr> Status = ''ok'', Reason = [] \<rparr>, None)"
    by (simp add: PutJob_def empty_db_def)
  from Dependencies_roundtrip[OF h1 h2 h3]
  have r: "col_Dependencies (last (table (snd (PutJob empty_db example_job)))) = ''a1,b2'' \<and>
     (\<exists>st. scanRow (snd (PutJob empty_db example_job)) (last (table (snd (PutJob empty_db example_job)))) = Inr st \<and>
         Dependencies st = [''a1'', ''b2''])"
    unfolding d by simp
  show ?thesis using d h4 r by blast
qed
subsection \<open>GetJob\<close>

lemma scanRow_fault: "(\<exists>err. scanRow b r = Inl err) = (scan_fault b r \<noteq> None)"
  by (auto simp: scanRow_def split: option.splits)

lemma scanRow_ID: "scanRow b r = Inr st \<Longrightarrow> ID st = col_ID r \<and> Successful st = col_Successful r"
  by (auto simp: scanRow_def split: option.splits)




subsection \<open>GetJobs\<close>

lemma bind_params_snd:
  "i + length vs \<le> length ps \<Longrightarrow>
   snd (bind_params i vs q ps) = take i ps @ map Some vs @ drop (i + length vs) ps"
proof (induction vs arbitrary: i q ps)
  case Nil
  then show ?case by simp
next
  case (Cons v vs)
  then have i: "i < length ps" by simp
  have "snd (bind_params (i + 1) vs (q @ ''$'' @ show_nat (i + 1) @ '', '') (ps[i := Some v])) =
        take (i + 1) (ps[i := Some v]) @ map Some vs @ drop (i + 1 + length vs) (ps[i := Some v])"
    using Cons.prems by (intro Cons.IH) simp
  also have "take (i + 1) (ps[i := Some v]) = take i ps @ [Some v]"
    using i by (simp add: take_Suc_conv_app_nth)
  also have "drop (i + 1 + length vs) (ps[i := Some v]) = drop (i + 1 + length vs) ps"
    by simp
  finally show ?case by simp
qed

lemma GetJobs_params:
  assumes "ids \<noteq> []"
  shows "(snd (bind_params 0 (butlast ids) q (replicate (length ids) None)))
           [length ids - 1 := Some (last ids)] = map Some ids"
proof -
  have "snd (bind_params 0 (butlast ids) q (replicate (length ids) None)) =
        map Some (butlast ids) @ drop (length (butlast ids)) (replicate (length ids) None)"
    by (subst bind_params_snd) simp_all
  also have "drop (length (butlast ids)) (replicate (length ids) (None::string option)) = [None]"
  proof -
    have "length ids - (length ids - 1) = 1" using assms by (cases ids) simp_all
    then show ?thesis by simp
  qed
  finally have "(snd (bind_params 0 (butlast ids) q (replicate (length ids) None)))
           [length ids - 1 := Some (last ids)] = map Some (butlast ids) @ [Some (last ids)]"
    by (simp add: list_update_append)
  also have "\<dots> = map Some ids"
    using assms by (cases ids rule: rev_cases) simp_all
  finally show ?thesis .
qed

lemma scan_rows_result:
  assumes "scan_rows b full rows reply = (reply', err)"
  shows "(err \<noteq> None) = (\<exists>r \<in> set rows. scan_fault b r \<noteq> None) \<and>
         (err \<noteq> None \<longrightarrow> Status reply' = ''error'' \<and> IDs reply' = [] \<and> Jobs reply' = []) \<and>
         (err = None \<longrightarrow> Status reply' = Status reply \<and>
            (if full then map ID (Jobs reply') = map ID (Jobs reply) @ map col_ID rows \<and> IDs reply' = IDs reply
             else map fst (IDs reply') = map fst (IDs reply) @ map col_ID rows \<and> Jobs reply' = Jobs reply))"
  using assms
proof (induction rows arbitrary: reply)
  case Nil
  then show ?case by auto
next
  case (Cons r rows)
  show ?case
  proof (cases "scanRow b r")
    case (Inl e)
    then have "scan_fault b r \<noteq> None" using scanRow_fault[of b r] by auto
    with Inl Cons.prems show ?thesis by auto
  next
    case (Inr st)
    then have nf: "scan_fault b r = None" using scanRow_fault[of b r] by auto
    note idst = scanRow_ID[OF Inr]
    show ?thesis
    proof (cases full)
      case True
      with Inr Cons.prems have "scan_rows b full rows (reply\<lparr>Jobs := Jobs reply @ [st]\<rparr>) = (reply', err)"
        by simp
      from Cons.IH[OF this] nf idst True show ?thesis by auto
    next
      case False
      with Inr Cons.prems have "scan_rows b full rows (reply\<lparr>IDs := IDs reply @ [(ID st, Successful st)]\<rparr>) = (reply', err)"
        by simp
      from Cons.IH[OF this] nf idst False show ?thesis by auto
    qed
  qed
qed

text \<open>
  The two failures that \<open>GetJobs\<close> checks for do abort the batch. For a batch of at
  least one ID, an error is returned exactly when the query fails or the scan of one of
  the delivered rows fails, and then the reply has status \<open>error\<close> and neither IDs nor
  jobs, whatever rows were scanned before; with no error the status is \<open>ok\<close> and the
  reply lists the rows that were delivered, in their order.
\<close>

lemma GetJobs_checked_failures:
  assumes "ids \<noteq> []"
  shows "\<exists>reply err. GetJobs b ids full = Returned (reply, err) \<and>
           (err \<noteq> None) =
             (fault b OpQuery \<noteq> None \<or>
              (\<exists>r \<in> set (delivered (fetch b (filter (\<lambda>r. col_ID r \<in> set ids) (table b)))).
                  scan_fault b r \<noteq> None)) \<and>
           (err \<noteq> None \<longrightarrow> Status reply = ''error'' \<and> IDs reply = [] \<and> Jobs reply = []) \<and>
           (err = None \<longrightarrow> Status reply = ''ok'' \<and>
              (if full
               then map ID (Jobs reply) =
                      map col_ID (delivered (fetch b (filter (\<lambda>r. col_ID r \<in> set ids) (table b)))) \<and>
                    IDs reply = []
               else map fst (IDs reply) =
                      map col_ID (delivered (fetch b (filter (\<lambda>r. col_ID r \<in> set ids) (table b)))) \<and>
                    Jobs reply = []))"
proof (cases "fault b OpQuery")
  case (Some e)
  with assms show ?thesis
    by (simp add: GetJobs_def Query_def Let_def case_prod_beta)
next
  case None
  define rows where "rows = delivered (fetch b (filter (\<lambda>r. col_ID r \<in> set ids) (table b)))"
  define reply0 :: GetJobStatusReply where "reply0 = \<lparr> Status = ''ok'', Reason = [], IDs = [], Jobs = [] \<rparr>"
  have sel: "\<And>q. delivered (fetch b (filter (\<lambda>r. Some (col_ID r) \<in> set ((snd (bind_params 0 (butlast ids) q (replicate (length ids) None)))
           [length ids - 1 := Some (last ids)])) (table b))) = rows"
  proof -
    fix q
    have "filter (\<lambda>r. Some (col_ID r) \<in> set (map Some ids)) (table b) =
          filter (\<lambda>r. col_ID r \<in> set ids) (table b)"
      by (rule filter_cong) auto
    then show "delivered (fetch b (filter (\<lambda>r. Some (col_ID r) \<in> set ((snd (bind_params 0 (butlast ids) q (replicate (length ids) None)))
           [length ids - 1 := Some (last ids)])) (table b))) = rows"
      unfolding GetJobs_params[OF assms] rows_def by simp
  qed
  obtain reply' err where sr: "scan_rows b full rows reply0 = (reply', err)" by (cases "scan_rows b full rows reply0")
  have g: "GetJobs b ids full = Returned (reply', err)"
    using assms None sr sel
    by (simp add: GetJobs_def Query_def Let_def reply0_def case_prod_beta)
  from scan_rows_result[OF sr] g None show ?thesis
    unfolding rows_def reply0_def by (cases full) auto
qed

text \<open>
  Claim C2, on \<open>GetJobs\<close> as it is written. A failure of the third kind is not
  checked for: when fetching a row fails during the iteration, \<open>rows.Next()\<close> is false
  as at the end of the result, and \<open>rows.Err()\<close> is never read. For the batch of the
  two jobs \<open>j1\<close> and \<open>j2\<close>, on a connection that breaks after the first row, the
  result carries the error, and \<open>GetJobs\<close> returns status \<open>ok\<close>, a nil error and the
  first job alone; without the break it returns both.
\<close>

theorem GetJobs_partial_result_without_error:
  "Query broken_fetch_db q [Some ''j1'', Some ''j2''] =
     Inr \<lparr> delivered = [insert_values example_job], rows_Err = Some ''unexpected EOF'' \<rparr> \<and>
   GetJobs broken_fetch_db [''j1'', ''j2''] False =
     Returned (\<lparr> Status = ''ok'', Reason = [], IDs = [(''j1'', True)], Jobs = [] \<rparr>, None) \<and>
   GetJobs (broken_fetch_db\<lparr>fetch_fault := None\<rparr>) [''j1'', ''j2''] False =
     Returned (\<lparr> Status = ''ok'', Reason = [], IDs = [(''j1'', True), (''j2'', True)], Jobs = [] \<rparr>, None)"
  by (simp add: GetJobs_def Query_def fetch_def broken_fetch_db_def insert_values_def scanRow_def
      example_job_def)

section \<open>Properties of the consumer loop\<close>

lemma Run_append:
  "Run env (xs @ ys) desc w =
     (case Run env xs desc w of
        (evs1, desc1, w1) \<Rightarrow>
          (case Run env ys desc1 w1 of (evs2, r) \<Rightarrow> (evs1 @ evs2, r)))"
proof (induction xs arbitrary: desc w)
  case Nil
  show ?case by simp
next
  case (Cons x xs)
  show ?case
    by (simp add: Cons.IH split: prod.splits option.splits)
qed

text \<open>
  Claim C6. Wherever it stands in the stream of deliveries, a delivery whose body cannot
  be unmarshalled is answered with \<open>Nack(false, false)\<close>, that is without requeue, and
  with nothing else: no transaction is started for it, the state of the host is the one
  the deliveries before it left, and the loop goes on with the deliveries after it.
\<close>

theorem Run_rejects_unparseable:
  assumes "Run env before desc w = (evs1, desc1, w1)"
    and "Unmarshal env j desc1 = (Some err, desc2)"
    and "Run env after desc2 w1 = (evs2, r)"
  shows "Run env (before @ j # after) desc w = (evs1 @ Nack False False # evs2, r) \<and>
         Run env (before @ [j]) desc w = (evs1 @ [Nack False False], desc2, w1)"
  using assms by (simp add: Run_append)

theorem Run_rejects_unparseable_witness:
  "Unmarshal failing_fetch [] (example_desc\<lparr>desc_Payload := ''http://staging/payload.tar.gz''\<rparr>) =
     (Some ''unexpected end of JSON input'', example_desc\<lparr>desc_Payload := ''http://staging/payload.tar.gz''\<rparr>) \<and>
   Run failing_fetch [[0x7B, 0x7D], [], [0x7B, 0x7D]] example_desc 0 =
     ([Transaction (example_desc\<lparr>desc_Payload := ''http://staging/payload.tar.gz''\<rparr>), Nack False True,
       Nack False False,
       Transaction (example_desc\<lparr>desc_Payload := ''http://staging/payload.tar.gz''\<rparr>), Nack False True],
      example_desc\<lparr>desc_Payload := ''http://staging/payload.tar.gz''\<rparr>, 2)"
proof -
  let ?d = "example_desc\<lparr>desc_Payload := ''http://staging/payload.tar.gz''\<rparr>"
  have h1: "Run failing_fetch [[0x7B, 0x7D]] example_desc 0 =
              ([Transaction ?d, Nack False True], ?d, 1)"
    by (simp add: failing_fetch_def task_def)
  have h2: "Unmarshal failing_fetch [] ?d = (Some ''unexpected end of JSON input'', ?d)"
    by (simp add: failing_fetch_def)
  have h3: "Run failing_fetch [[0x7B, 0x7D]] ?d 1 = ([Transaction ?d, Nack False True], ?d, 2)"
    by (simp add: failing_fetch_def task_def)
  from Run_rejects_unparseable[OF h1 h2 h3] h2 show ?thesis by simp
qed

lemma Run_failing_fetch_step:
  "Run failing_fetch ([0x7B, 0x7D] # jobs) desc w =
     (case Run failing_fetch jobs (desc\<lparr>desc_Payload := ''http://staging/payload.tar.gz''\<rparr>) (Suc w) of
        (evs, r) \<Rightarrow> (Transaction (desc\<lparr>desc_Payload := ''http://staging/payload.tar.gz''\<rparr>) #
                      Nack False True # evs, r))"
  by (simp add: failing_fetch_def task_def)

text \<open>
  Claim C1, on the loop as it is written. On a host where the download of the payload
  always fails, a message that parses is answered with \<open>Nack(false, true)\<close> on every
  one of its \<open>n\<close> deliveries, for every \<open>n\<close>: each delivery starts a transaction and
  a download, none is ever acknowledged or rejected without requeue, and the loop keeps
  no count of the attempts.
\<close>

theorem Run_requeues_without_bound:
  "fst (Run failing_fetch (replicate n [0x7B, 0x7D]) desc w) =
     concat (replicate n [Transaction (desc\<lparr>desc_Payload := ''http://staging/payload.tar.gz''\<rparr>),
                          Nack False True]) \<and>
   snd (snd (Run failing_fetch (replicate n [0x7B, 0x7D]) desc w)) = w + n \<and>
   Ack False \<notin> set (fst (Run failing_fetch (replicate n [0x7B, 0x7D]) desc w)) \<and>
   Nack False False \<notin> set (fst (Run failing_fetch (replicate n [0x7B, 0x7D]) desc w))"
proof (induction n arbitrary: desc w)
  case 0
  show ?case by simp
next
  case (Suc n)
  let ?d = "desc\<lparr>desc_Payload := ''http://staging/payload.tar.gz''\<rparr>"
  have dd: "?d\<lparr>desc_Payload := ''http://staging/payload.tar.gz''\<rparr> = ?d" by simp
  from Suc.IH[of ?d "Suc w"] show ?case
    by (simp only: replicate_Suc Run_failing_fetch_step dd case_prod_beta fst_conv snd_conv
        concat.simps append_Cons append_Nil list.set) auto
qed

section \<open>Properties of processing a job\<close>

lemma create_mode_no_exec: "(438 AND NOT u) AND 73 = (0::32 word)"
proof -
  have "(438 AND NOT u) AND 73 = (438 AND 73) AND NOT u"
    by (simp add: and.commute and.left_commute and.assoc)
  also have "(438::32 word) AND 73 = 0" by simp
  finally show ?thesis by simp
qed

lemma DecodeString_packed:
  "DecodeString ''H4sIAAAAAAAA/1JW1E/KzNMvzuDKKeYCBAAA//+ZxzWgDQAAAA=='' = Inr example_script_gz"
  by (simp add: DecodeString_def dec6_def encodeStd_def example_script_gz_def)

lemma path_Join_targetDir:
  "path_Join [''/cvmfs'', ''test-sw.hsf.org'', ''/ripgrep''] = ''/cvmfs/test-sw.hsf.org/ripgrep''"
  by (simp add: path_Join_def path_Clean_def)

lemma path_Join_scriptFile:
  "path_Join [''/tmp/conveyor-worker'', ''transaction.sh''] = ''/tmp/conveyor-worker/transaction.sh''"
  by (simp add: path_Join_def path_Clean_def)

lemma path_Join_examples:
  "path_Join [''a'', ''b/../c'', '''', ''./d/''] = ''a/c/d''"
  "path_Join [''/'', ''..'', ''x''] = ''/x''"
  "path_Join [''..'', ''..'', ''x'', ''..''] = ''../..''"
  "path_Join ['''', ''''] = ''''"
  "path_Join [''.'', ''transaction.sh''] = ''transaction.sh''"
  "path_Join [''a'', ''..''] = ''.''"
  by (simp_all add: path_Join_def path_Clean_def)

lemma file_Write_keeps_mode:
  assumes "file_Write s name p w = (None, w')"
  shows "\<exists>f. files w name = Some f \<and> files w' name = Some (f\<lparr>fdata := fdata f @ p\<rparr>)"
  using assms by (auto simp: file_Write_def split: option.splits)

lemma unpackScript_file:
  assumes "unpackScript gz body (file_Write s name) w = (None, w')"
  shows "\<exists>f p. files w name = Some f \<and> files w' name = Some (f\<lparr>fdata := fdata f @ p\<rparr>)"
proof -
  from assms obtain p where "file_Write s name p w = (None, w')"
    by (auto simp: unpackScript_def split: sum.splits gzr_result.splits prod.splits option.splits)
  from file_Write_keeps_mode[OF this] show ?thesis by blast
qed

lemma os_Create_opens:
  assumes "os_Create s name w = (None, w')"
  shows "\<exists>f. files w' name = Some f \<and> fopen f \<and>
             (files w name = None \<longrightarrow> fmode f = 438 AND NOT (umask w))"
  using assms by (auto simp: os_Create_def split: option.splits)

lemma runScript_open_file:
  assumes "files w name = Some f" and "fopen f" and "CHR ''/'' \<in> set name"
  shows "\<exists>err. runScript s name repo repoPath args w = (Some err, w)"
  using assms by (simp add: runScript_def Let_def)

text \<open>
  A job that carries its script packed is never processed with success, whatever the
  host does and whatever the script is: the file that \<open>process\<close> hands to
  \<open>runScript\<close> is the one it has just created and still holds open, so the operating
  system refuses to start it.
\<close>

lemma process_unpacked_script_never_runs:
  assumes "TransferScript j" and "Script j \<noteq> []"
    and "CHR ''/'' \<in> set (path_Join [tempDir, ''transaction.sh''])"
  shows "fst (process gz s tempDir j w) \<noteq> None"
proof -
  define f where "f = path_Join [tempDir, ''transaction.sh'']"
  define t where "t = path_Join [''/cvmfs'', Repository j, RepositoryPath j]"
  obtain e1 w1 where m: "os_MkdirAll s t 493 w = (e1, w1)" by (cases "os_MkdirAll s t 493 w")
  obtain e2 w2 where g: "(if Payload j \<noteq> [] then getter_Get s t (Payload j) w1 else (None, w1)) = (e2, w2)"
    by (cases "(if Payload j \<noteq> [] then getter_Get s t (Payload j) w1 else (None, w1))")
  obtain e3 w3 where c: "os_Create s f w2 = (e3, w3)" by (cases "os_Create s f w2")
  obtain e4 w4 where u: "unpackScript gz (Script j) (file_Write s f) w3 = (e4, w4)"
    by (cases "unpackScript gz (Script j) (file_Write s f) w3")
  show ?thesis
  proof (cases "e1 = None \<and> e2 = None \<and> e3 = None \<and> e4 = None")
    case False
    then show ?thesis
      unfolding process_def Let_def f_def[symmetric] t_def[symmetric]
      using assms(1,2) m g c u
      by (auto simp: split: option.splits)
  next
    case True
    with c u have c': "os_Create s f w2 = (None, w3)"
      and u': "unpackScript gz (Script j) (file_Write s f) w3 = (None, w4)" by simp_all
    from os_Create_opens[OF c'] obtain fl where f3: "files w3 f = Some fl" "fopen fl" by blast
    from unpackScript_file[OF u'] f3 obtain p where f4: "files w4 f = Some (fl\<lparr>fdata := fdata fl @ p\<rparr>)"
      by auto
    have "fopen (fl\<lparr>fdata := fdata fl @ p\<rparr>)" using f3 by simp
    from runScript_open_file[OF f4 this assms(3)[folded f_def]]
    obtain err where r: "runScript s f (Repository j) (RepositoryPath j) (ScriptArgs j) w4 = (Some err, w4)"
      by blast
    show ?thesis
      unfolding process_def Let_def f_def[symmetric] t_def[symmetric]
      using assms(1,2) True m g c' u' r by simp
  qed
qed

text \<open>
  When \<open>transaction.sh\<close> did not exist before, the unpacked file has the mode that
  \<open>os.Create\<close> gave it, without any execute bit whatever the umask, and the run ends
  with a permission error.
\<close>

lemma process_unpacked_script_not_executable:
  assumes "TransferScript j" and "Script j \<noteq> []"
    and "CHR ''/'' \<in> set (path_Join [tempDir, ''transaction.sh''])"
    and "os_MkdirAll s (path_Join [''/cvmfs'', Repository j, RepositoryPath j]) 493 w = (None, w1)"
    and "Payload j \<noteq> [] \<Longrightarrow>
           getter_Get s (path_Join [''/cvmfs'', Repository j, RepositoryPath j]) (Payload j) w1 = (None, w2)"
    and "Payload j = [] \<Longrightarrow> w2 = w1"
    and "files w2 (path_Join [tempDir, ''transaction.sh'']) = None"
    and "os_Create s (path_Join [tempDir, ''transaction.sh'']) w2 = (None, w3)"
    and "unpackScript gz (Script j) (file_Write s (path_Join [tempDir, ''transaction.sh''])) w3 = (None, w4)"
  shows "\<not> executable w4 (path_Join [tempDir, ''transaction.sh'']) \<and>
         process gz s tempDir j w =
           (Some (Wrap (''fork/exec '' @ path_Join [tempDir, ''transaction.sh''] @ '': permission denied'')
                    ''running transaction script failed''),
            deferred_Close (Some (path_Join [tempDir, ''transaction.sh''])) w4)"
proof -
  define f where "f = path_Join [tempDir, ''transaction.sh'']"
  define t where "t = path_Join [''/cvmfs'', Repository j, RepositoryPath j]"
  have f3: "files w3 f = Some \<lparr> fmode = 438 AND NOT (umask w2), fdata = [], fopen = True \<rparr>"
    using assms(7,8) unfolding f_def by (auto simp: os_Create_def split: option.splits)
  from unpackScript_file[OF assms(9)] f3 obtain p where
    f4: "files w4 f = Some \<lparr> fmode = 438 AND NOT (umask w2), fdata = p, fopen = True \<rparr>"
    unfolding f_def by auto
  have ne: "\<not> executable w4 f" using f4 by (simp add: executable_def create_mode_no_exec)
  have r: "runScript s f (Repository j) (RepositoryPath j) (ScriptArgs j) w4 =
             (Some (''fork/exec '' @ f @ '': permission denied''), w4)"
    using f4 ne assms(3)[folded f_def] by (simp add: runScript_def)
  have g: "(if Payload j \<noteq> [] then getter_Get s t (Payload j) w1 else (None, w1)) = (None, w2)"
    using assms(5,6) unfolding t_def by (cases "Payload j = []") simp_all
  have "process gz s tempDir j w =
           (Some (Wrap (''fork/exec '' @ f @ '': permission denied'') ''running transaction script failed''),
            deferred_Close (Some f) w4)"
    unfolding process_def Let_def f_def[symmetric] t_def[symmetric]
    by (simp only: assms(1,2) assms(4)[folded t_def] g assms(8,9)[folded f_def] r prod.case option.case
        sum.case if_True if_False not_False_eq_True)
  with ne show ?thesis unfolding f_def by simp
qed

text \<open>
  Claim C7, on \<open>process\<close> as it is written. For the job that carries the packed
  two-line script, on a worker with an empty temporary directory, and for any gzip
  library: when the library decompresses the stream, its output is written to
  \<open>transaction.sh\<close>, but the file was created by \<open>os.Create\<close> with mode \<open>0644\<close>
  (420 in decimal) and its mode is never changed, so it has no execute permission when
  \<open>runScript\<close> starts it, and processing ends with a permission error.
\<close>

theorem process_packed_script_permission_denied:
  "process gz plain_sys ''/tmp/conveyor-worker'' packed_job fresh_world =
     (case gz_read gz example_script_gz of
        HeaderErr err \<Rightarrow>
          (Some (''unpacking transaction script failed: gzip reader construction failed: '' @ err),
           fresh_world\<lparr>files := [''/tmp/conveyor-worker/transaction.sh'' \<mapsto>
                                      \<lparr> fmode = 420, fdata = [], fopen = False \<rparr>]\<rparr>)
      | DataErr err \<Rightarrow>
          (Some (''unpacking transaction script failed: decompression failed: '' @ err),
           fresh_world\<lparr>files := [''/tmp/conveyor-worker/transaction.sh'' \<mapsto>
                                      \<lparr> fmode = 420, fdata = [], fopen = False \<rparr>]\<rparr>)
      | Raw rawbuf \<Rightarrow>
          (Some ''running transaction script failed: fork/exec /tmp/conveyor-worker/transaction.sh: permission denied'',
           fresh_world\<lparr>files := [''/tmp/conveyor-worker/transaction.sh'' \<mapsto>
                                      \<lparr> fmode = 420, fdata = rawbuf, fopen = False \<rparr>]\<rparr>))"
  by (cases "gz_read gz example_script_gz")
     (simp_all add: process_def plain_sys_def packed_job_def fresh_world_def os_Create_def
      unpackScript_def DecodeString_packed file_Write_def runScript_def deferred_Close_def
      executable_def Wrap_def Let_def path_Join_targetDir path_Join_scriptFile)

section \<open>Properties of the time limit\<close>

text \<open>
  Claim C8. The time limit of a job is two hours, \<open>2 * 3600\<close> seconds. A job whose
  execution takes longer has its transaction aborted and is finalized as failed with the
  timeout error, which is not the error of a failed script.
\<close>

theorem MaxJobDuration_timeout:
  "MaxJobDuration = 2 * 60 * 60 \<and>
   (MaxJobDuration < elapsed \<longrightarrow> finalize_job elapsed result = (TxAborted, False, Some TimeoutError)) \<and>
   TimeoutError \<noteq> ProcessError err"
  by (simp add: finalize_job_def MaxJobDuration_def)

theorem MaxJobDuration_timeout_witness:
  "MaxJobDuration < 7201 \<and>
   finalize_job 7201 None = (TxAborted, False, Some TimeoutError) \<and>
   finalize_job 7200 None = (TxCommitted, True, None) \<and>
   finalize_job 7200 (Some ''running transaction script failed: exit status 1'') =
     (TxAborted, False, Some (ProcessError ''running transaction script failed: exit status 1''))"
proof -
  have h: "MaxJobDuration < 7201" by (simp add: MaxJobDuration_def)
  from MaxJobDuration_timeout[of 7201 None] h
  have "finalize_job 7201 None = (TxAborted, False, Some TimeoutError)" by blast
  with h show ?thesis by (simp add: finalize_job_def MaxJobDuration_def)
qed

end
